theory Spec2Isabelle
  imports Main
begin

section \<open>Data model of site.go\<close>

type_synonym path = string
type_synonym bytes = string

text \<open>A Go \<open>error\<close> value; \<open>nil\<close> is \<open>None\<close> of \<open>error option\<close>.\<close>

datatype error = Error string

text \<open>
  A Go call either returns or panics. \<open>NilDereference\<close> is a method call through a nil
  interface or pointer, \<open>MustFailed\<close> is the panic of \<open>template.Must\<close> on a non-nil
  error.
\<close>

datatype panic = NilDereference | MustFailed error

datatype 'a outcome = Panicked panic | Returned 'a

text \<open>
  The \<open>Page\<close> interface of the repository is not declared in site.go; site.go uses
  exactly the five getters below, so a page or post is the record of what they return.
\<close>

record Page =
  GetUrl :: string
  GetContent :: bytes
  GetLayout :: string
  GetCategories :: "string list"
  GetTags :: "string list"

text \<open>
  The values site.go stores in the configuration: the post list, the build time, and a
  \<open>map[string][]Page\<close>; \<open>Setting\<close> stands for whatever the configuration file held.
\<close>

datatype conf_value =
    PostList "Page list"
  | Time nat
  | Index "string \<rightharpoonup> Page list"
  | Setting string

type_synonym Config = "string \<rightharpoonup> conf_value"

text \<open>
  Modelled from the spec: \<open>Config.Set\<close> is not in site.go. The spec describes Config as a
  mapping from string key to value in which keys are unique and the last write wins.
\<close>

definition Conf_Set :: "string \<Rightarrow> conf_value \<Rightarrow> Config \<Rightarrow> Config" where
  "Conf_Set key val c = c(key \<mapsto> val)"

text \<open>
  The struct \<open>Site\<close>. The compiled templates are a pointer, nil until \<open>read\<close> sets it;
  \<open>'tm\<close> is the type of a compiled template set.
\<close>

record 'tm Site =
  Src :: path
  Dest :: path
  Conf :: Config
  posts :: "Page list"
  pages :: "Page list"
  files :: "path list"
  templ :: "'tm option"

section \<open>The Aggregator: calculateTags and calculateCategories\<close>

text \<open>
  The body of the inner loop of both functions:
  \<^verbatim>\<open>
  if posts, ok := tags[tag]; ok == false {
      tags[tag] = append(posts, post)
  } else {
      tags[tag] = []Page{ post }
  }
  \<close>
  When the key is absent, \<open>posts\<close> is the nil slice and the append gives the one-element
  slice; when it is present, the bucket is replaced by the one-element slice.
\<close>

definition bucket_insert :: "Page \<Rightarrow> string \<Rightarrow> (string \<rightharpoonup> Page list) \<Rightarrow> (string \<rightharpoonup> Page list)" where
  "bucket_insert post label m =
     (case m label of
        None \<Rightarrow> m(label \<mapsto> [] @ [post])
      | Some ps \<Rightarrow> m(label \<mapsto> [post]))"

text \<open>The inner loop, over the labels of one post.\<close>

fun labels_loop :: "Page \<Rightarrow> string list \<Rightarrow> (string \<rightharpoonup> Page list) \<Rightarrow> (string \<rightharpoonup> Page list)" where
  "labels_loop post [] m = m"
| "labels_loop post (l # ls) m = labels_loop post ls (bucket_insert post l m)"

text \<open>The outer loop, over the posts; \<open>get\<close> is \<open>GetTags\<close> or \<open>GetCategories\<close>.\<close>

fun posts_loop :: "(Page \<Rightarrow> string list) \<Rightarrow> Page list \<Rightarrow> (string \<rightharpoonup> Page list) \<Rightarrow> (string \<rightharpoonup> Page list)" where
  "posts_loop get [] m = m"
| "posts_loop get (p # ps) m = posts_loop get ps (labels_loop p (get p) m)"

definition tags_index :: "Page list \<Rightarrow> (string \<rightharpoonup> Page list)" where
  "tags_index ps = posts_loop GetTags ps Map.empty"

definition categories_index :: "Page list \<Rightarrow> (string \<rightharpoonup> Page list)" where
  "categories_index ps = posts_loop GetCategories ps Map.empty"

definition calculateCategories :: "'tm Site \<Rightarrow> 'tm Site" where
  "calculateCategories s =
     s\<lparr>Conf := Conf_Set ''categories'' (Index (categories_index (posts s))) (Conf s)\<rparr>"

definition calculateTags :: "'tm Site \<Rightarrow> 'tm Site" where
  "calculateTags s =
     s\<lparr>Conf := Conf_Set ''tags'' (Index (tags_index (posts s))) (Conf s)\<rparr>"

text \<open>Reading an index back out of the configuration, as a template would.\<close>

definition conf_index :: "string \<Rightarrow> 'tm Site \<Rightarrow> (string \<rightharpoonup> Page list)" where
  "conf_index key s = (case Conf s key of Some (Index m) \<Rightarrow> m | _ \<Rightarrow> Map.empty)"

text \<open>Two posts that both carry the tag and the category \<open>release\<close>.\<close>

definition post_a :: Page where
  "post_a = \<lparr>GetUrl = ''2012/01/01/a.html'', GetContent = ''# A'', GetLayout = ''post'',
     GetCategories = [''release''], GetTags = [''release'']\<rparr>"

definition post_b :: Page where
  "post_b = \<lparr>GetUrl = ''2012/01/02/b.html'', GetContent = ''# B'', GetLayout = ''post'',
     GetCategories = [''release''], GetTags = [''release'']\<rparr>"

definition two_posts :: "unit Site" where
  "two_posts = \<lparr>Src = ''src'', Dest = ''_site'', Conf = Map.empty,
     posts = [post_a, post_b], pages = [], files = [], templ = None\<rparr>"

section \<open>The environment of site.go\<close>

text \<open>
  site.go calls the Go library (\<open>filepath\<close>, \<open>os\<close>, \<open>ioutil\<close>, \<open>mime\<close>,
  \<open>text/template\<close>, \<open>time\<close>, blackfriday, goamz) and helpers of the repository that
  are declared in other files. None of that code is in site.go, so every such function is
  a field of the record \<open>env\<close>, and the functions of site.go take an \<open>env\<close>. The type
  \<open>'fs\<close> is the state of the world outside the process: the file system and, for
  \<open>Deploy\<close>, the object store. A function that only reads gets the state and returns a
  value; one that writes returns the new state as well.
\<close>

text \<open>
  \<open>os.FileInfo\<close>, of which site.go reads \<open>IsDir()\<close> only. The arguments of a walk
  callback \<open>func(fn string, fi os.FileInfo, err error)\<close> are an \<open>entry\<close>; a nil
  \<open>fi\<close> is \<open>None\<close>.
\<close>

datatype FileInfo = FileInfo (IsDir: bool)

type_synonym entry = "path \<times> FileInfo option \<times> error option"

text \<open>The \<open>map[string]interface{}\<close> passed to every template execution.\<close>

record render_data =
  data_site :: Config
  data_page :: Page
  data_content :: string

text \<open>\<open>s3.New(auth, aws.USEast).Bucket(url)\<close>.\<close>

record Bucket =
  bucket_auth :: "string \<times> string"
  bucket_region :: string
  bucket_name :: string

record ('fs, 'tm) env =
  filepath_Join :: "path \<Rightarrow> path \<Rightarrow> path"
  filepath_Rel :: "path \<Rightarrow> path \<Rightarrow> path"
  filepath_Dir :: "path \<Rightarrow> path"
  filepath_Ext :: "path \<Rightarrow> string"
  filepath_Walk :: "path \<Rightarrow> 'fs \<Rightarrow> entry list"
  os_MkdirAll :: "path \<Rightarrow> 'fs \<Rightarrow> error option \<times> 'fs"
  os_RemoveAll :: "path \<Rightarrow> 'fs \<Rightarrow> error option \<times> 'fs"
  ioutil_ReadFile :: "path \<Rightarrow> 'fs \<Rightarrow> error + bytes"
  ioutil_WriteFile :: "path \<Rightarrow> bytes \<Rightarrow> 'fs \<Rightarrow> error option \<times> 'fs"
  mime_TypeByExtension :: "string \<Rightarrow> string"
  template_ParseFiles :: "path list \<Rightarrow> 'fs \<Rightarrow> error + 'tm"
  ExecuteTemplate :: "'tm \<Rightarrow> string \<Rightarrow> render_data \<Rightarrow> bytes \<times> error option"
  blackfriday_MarkdownCommon :: "bytes \<Rightarrow> bytes"
  time_Now :: nat
  s3_Put :: "Bucket \<Rightarrow> string \<Rightarrow> bytes \<Rightarrow> string \<Rightarrow> string \<Rightarrow> 'fs \<Rightarrow> error option \<times> 'fs"
  ParseConfig :: "path \<Rightarrow> 'fs \<Rightarrow> error + Config"
  ParsePost :: "path \<Rightarrow> 'fs \<Rightarrow> error + Page"
  ParsePage :: "path \<Rightarrow> 'fs \<Rightarrow> error + Page"
  isHiddenOrTemp :: "path \<Rightarrow> 'fs \<Rightarrow> bool"
  isTemplate :: "path \<Rightarrow> 'fs \<Rightarrow> bool"
  isPost :: "path \<Rightarrow> 'fs \<Rightarrow> bool"
  isPage :: "path \<Rightarrow> 'fs \<Rightarrow> bool"
  isStatic :: "path \<Rightarrow> 'fs \<Rightarrow> bool"
  appendExt :: "string \<Rightarrow> string \<Rightarrow> string"
  copyTo :: "path \<Rightarrow> path \<Rightarrow> 'fs \<Rightarrow> error option \<times> 'fs"

text \<open>The world a run acts on: the state outside the process and what was logged.\<close>

record 'fs world =
  fsys :: 'fs
  logged :: "(string \<times> string) list"

definition MsgCopyingFile :: string where
  "MsgCopyingFile = ''Copying File: %s''"

definition MsgGenerateFile :: string where
  "MsgGenerateFile = ''Generating Page: %s''"

definition MsgUploadFile :: string where
  "MsgUploadFile = ''Uploading: %s''"

definition MsgUsingConfig :: string where
  "MsgUsingConfig = ''Loading Config: %s''"

text \<open>
  Modelled from the spec: \<open>logf\<close> is not in site.go. The spec says that a run logs the
  event that is in progress; the model appends the format and its argument to the log.
\<close>

definition logf :: "string \<Rightarrow> string \<Rightarrow> 'fs world \<Rightarrow> 'fs world" where
  "logf fmt arg w = w\<lparr>logged := logged w @ [(fmt, arg)]\<rparr>"

section \<open>Walking a tree\<close>

text \<open>
  \<open>filepath.Walk(root, walker)\<close> calls \<open>walker\<close> on the entries of the tree in lexical
  order and stops at the first call that returns a non-nil error, which it returns
  (\<open>filepath.SkipDir\<close> apart, which no walker of site.go returns). Neither walker of
  site.go changes the tree it walks, so the calls of one walk are the list
  \<open>filepath_Walk env root fs\<close>, and \<open>walk\<close> is the loop over it. A panic of the
  walker ends the walk as well.
\<close>

fun walk :: "(entry \<Rightarrow> 'st \<Rightarrow> error option outcome \<times> 'st) \<Rightarrow> entry list \<Rightarrow> 'st
    \<Rightarrow> error option outcome \<times> 'st" where
  "walk walker [] st = (Returned None, st)"
| "walk walker (e # es) st =
     (case walker e st of
        (Returned None, st') \<Rightarrow> walk walker es st'
      | (Returned (Some err), st') \<Rightarrow> (Returned (Some err), st')
      | (Panicked p, st') \<Rightarrow> (Panicked p, st'))"

section \<open>read and NewSite\<close>

text \<open>
  The walker of \<open>read\<close>. It closes over the site and the local slice \<open>layouts\<close>, which
  are its state here. The \<open>switch\<close> has no default: a file that no case matches is left
  out of every list, and the walker returns nil.
\<close>

fun read_walker :: "('fs, 'tm) env \<Rightarrow> 'fs \<Rightarrow> entry \<Rightarrow> 'tm Site \<times> path list
    \<Rightarrow> error option outcome \<times> ('tm Site \<times> path list)" where
  "read_walker env fs (fn, fi, err) (s, layouts) =
     (let rel = filepath_Rel env (Src s) fn in
      if err \<noteq> None then (Returned None, (s, layouts))
      else
        (case fi of
           None \<Rightarrow> (Panicked NilDereference, (s, layouts))
         | Some info \<Rightarrow>
            (if IsDir info then (Returned None, (s, layouts))
             else if isHiddenOrTemp env rel fs then (Returned None, (s, layouts))
             else if isTemplate env rel fs then (Returned None, (s, layouts @ [fn]))
             else if isPost env rel fs then
               (case ParsePost env rel fs of
                  Inl perr \<Rightarrow> (Returned (Some perr), (s, layouts))
                | Inr post \<Rightarrow> (Returned None, (s\<lparr>posts := posts s @ [post]\<rparr>, layouts)))
             else if isPage env rel fs then
               (case ParsePage env rel fs of
                  Inl perr \<Rightarrow> (Returned (Some perr), (s, layouts))
                | Inr pg \<Rightarrow> (Returned None, (s\<lparr>pages := pages s @ [pg]\<rparr>, layouts)))
             else if isStatic env rel fs then
               (Returned None, (s\<lparr>files := files s @ [rel]\<rparr>, layouts))
             else (Returned None, (s, layouts)))))"

text \<open>
  \<open>read\<close>: the walk, then \<open>template.Must(template.ParseFiles(layouts...))\<close>, which
  panics when the compilation fails, then the four values put into the configuration.
\<close>

definition read :: "('fs, 'tm) env \<Rightarrow> 'fs \<Rightarrow> 'tm Site \<Rightarrow> error option outcome \<times> 'tm Site" where
  "read env fs s0 =
     (case walk (read_walker env fs) (filepath_Walk env (Src s0) fs) (s0, []) of
        (Panicked p, (s, layouts)) \<Rightarrow> (Panicked p, s)
      | (Returned (Some err), (s, layouts)) \<Rightarrow> (Returned (Some err), s)
      | (Returned None, (s, layouts)) \<Rightarrow>
          (case template_ParseFiles env layouts fs of
             Inl cerr \<Rightarrow> (Panicked (MustFailed cerr), s)
           | Inr t \<Rightarrow>
               let s1 = s\<lparr>templ := Some t\<rparr>;
                   s2 = s1\<lparr>Conf := Conf_Set ''posts'' (PostList (posts s1)) (Conf s1)\<rparr>;
                   s3 = s2\<lparr>Conf := Conf_Set ''time'' (Time (time_Now env)) (Conf s2)\<rparr>;
                   s4 = calculateTags s3;
                   s5 = calculateCategories s4
               in (Returned None, s5)))"

text \<open>
  \<open>NewSite\<close> returns the pair \<open>(*Site, error)\<close>; a nil pointer and a nil error are
  \<open>None\<close>. The configuration is parsed, the path is logged, and only then is the error
  looked at.
\<close>

definition NewSite :: "('fs, 'tm) env \<Rightarrow> path \<Rightarrow> path \<Rightarrow> 'fs world
    \<Rightarrow> ('tm Site option \<times> error option) outcome \<times> 'fs world" where
  "NewSite env src dest w =
     (let cpath = filepath_Join env src ''_config.yml'';
          parsed = ParseConfig env cpath (fsys w);
          w1 = logf MsgUsingConfig cpath w
      in case parsed of
           Inl err \<Rightarrow> (Returned (None, Some err), w1)
         | Inr conf \<Rightarrow>
             (case read env (fsys w1)
                     \<lparr>Src = src, Dest = dest, Conf = conf,
                      posts = [], pages = [], files = [], templ = None\<rparr> of
                (Panicked p, s) \<Rightarrow> (Panicked p, w1)
              | (Returned (Some err), s) \<Rightarrow> (Returned (None, Some err), w1)
              | (Returned None, s) \<Rightarrow> (Returned (Some s, None), w1)))"

section \<open>Generate\<close>

definition Prep :: "('fs, 'tm) env \<Rightarrow> 'tm Site \<Rightarrow> 'fs world \<Rightarrow> error option \<times> 'fs world" where
  "Prep env s w =
     (case os_MkdirAll env (Dest s) (fsys w) of (err, fs') \<Rightarrow> (err, w\<lparr>fsys := fs'\<rparr>))"

definition Clear :: "('fs, 'tm) env \<Rightarrow> 'tm Site \<Rightarrow> 'fs world \<Rightarrow> error option \<times> 'fs world" where
  "Clear env s w =
     (case os_RemoveAll env (Dest s) (fsys w) of (err, fs') \<Rightarrow> (err, w\<lparr>fsys := fs'\<rparr>))"

text \<open>
  The body of the loop of \<open>writePages\<close> for one page. The value that
  \<open>ExecuteTemplate\<close> returns is dropped by the source; the buffer is written whatever
  it holds. A nil \<open>s.templ\<close> makes the method call panic.
\<close>

definition write_page :: "('fs, 'tm) env \<Rightarrow> 'tm Site \<Rightarrow> Page \<Rightarrow> 'fs world
    \<Rightarrow> error option outcome \<times> 'fs world" where
  "write_page env s pg w =
     (let url = GetUrl pg;
          raw = GetContent pg;
          layout = appendExt env (GetLayout pg) ''.html'';
          d = filepath_Join env (Dest s) (filepath_Dir env url);
          f = filepath_Join env (Dest s) url
      in (case os_MkdirAll env d (fsys w) of
            (Some err, fs1) \<Rightarrow> (Returned (Some err), w\<lparr>fsys := fs1\<rparr>)
          | (None, fs1) \<Rightarrow>
             (let c = blackfriday_MarkdownCommon env raw;
                  data = \<lparr>data_site = Conf s, data_page = pg, data_content = c\<rparr>
              in (case templ s of
                    None \<Rightarrow> (Panicked NilDereference, w\<lparr>fsys := fs1\<rparr>)
                  | Some t \<Rightarrow>
                     (let buf = fst (ExecuteTemplate env t layout data);
                          w2 = logf MsgGenerateFile url (w\<lparr>fsys := fs1\<rparr>)
                      in (case ioutil_WriteFile env f buf (fsys w2) of
                            (Some err, fs2) \<Rightarrow> (Returned (Some err), w2\<lparr>fsys := fs2\<rparr>)
                          | (None, fs2) \<Rightarrow> (Returned None, w2\<lparr>fsys := fs2\<rparr>)))))))"

fun write_loop :: "('fs, 'tm) env \<Rightarrow> 'tm Site \<Rightarrow> Page list \<Rightarrow> 'fs world
    \<Rightarrow> error option outcome \<times> 'fs world" where
  "write_loop env s [] w = (Returned None, w)"
| "write_loop env s (pg # rest) w =
     (case write_page env s pg w of
        (Returned None, w') \<Rightarrow> write_loop env s rest w'
      | (Returned (Some err), w') \<Rightarrow> (Returned (Some err), w')
      | (Panicked p, w') \<Rightarrow> (Panicked p, w'))"

text \<open>
  \<open>writePages\<close> builds its list by appending \<open>s.pages\<close> and then \<open>s.posts\<close> to the
  empty slice.
\<close>

definition writePages :: "('fs, 'tm) env \<Rightarrow> 'tm Site \<Rightarrow> 'fs world
    \<Rightarrow> error option outcome \<times> 'fs world" where
  "writePages env s w = write_loop env s (([] @ pages s) @ posts s) w"

fun writeStatic_loop :: "('fs, 'tm) env \<Rightarrow> 'tm Site \<Rightarrow> path list \<Rightarrow> 'fs world
    \<Rightarrow> error option \<times> 'fs world" where
  "writeStatic_loop env s [] w = (None, w)"
| "writeStatic_loop env s (file # rest) w =
     (let from = filepath_Join env (Src s) file;
          to = filepath_Join env (Dest s) file;
          w1 = logf MsgCopyingFile file w
      in case copyTo env from to (fsys w1) of
           (Some err, fs') \<Rightarrow> (Some err, w1\<lparr>fsys := fs'\<rparr>)
         | (None, fs') \<Rightarrow> writeStatic_loop env s rest (w1\<lparr>fsys := fs'\<rparr>))"

definition writeStatic :: "('fs, 'tm) env \<Rightarrow> 'tm Site \<Rightarrow> 'fs world \<Rightarrow> error option \<times> 'fs world" where
  "writeStatic env s w = writeStatic_loop env s (files s) w"

definition Generate :: "('fs, 'tm) env \<Rightarrow> 'tm Site \<Rightarrow> 'fs world
    \<Rightarrow> error option outcome \<times> 'fs world" where
  "Generate env s w =
     (case Clear env s w of
        (Some err, w1) \<Rightarrow> (Returned (Some err), w1)
      | (None, w1) \<Rightarrow>
     (case Prep env s w1 of
        (Some err, w2) \<Rightarrow> (Returned (Some err), w2)
      | (None, w2) \<Rightarrow>
     (case writePages env s w2 of
        (Panicked p, w3) \<Rightarrow> (Panicked p, w3)
      | (Returned (Some err), w3) \<Rightarrow> (Returned (Some err), w3)
      | (Returned None, w3) \<Rightarrow>
     (case writeStatic env s w3 of
        (Some err, w4) \<Rightarrow> (Returned (Some err), w4)
      | (None, w4) \<Rightarrow> (Returned None, w4)))))"

section \<open>Deploy\<close>

definition aws_USEast :: string where
  "aws_USEast = ''us-east-1''"

definition s3_PublicRead :: string where
  "s3_PublicRead = ''public-read''"

text \<open>
  The walker of \<open>Deploy\<close>. Its first statement is \<open>fi.IsDir()\<close>; the error argument
  of the walk is never read, and the name \<open>err\<close> is bound again by the read of the file.
\<close>

fun deploy_walker :: "('fs, 'tm) env \<Rightarrow> 'tm Site \<Rightarrow> Bucket \<Rightarrow> entry \<Rightarrow> 'fs world
    \<Rightarrow> error option outcome \<times> 'fs world" where
  "deploy_walker env s b (fn, fi, err) w =
     (case fi of
        None \<Rightarrow> (Panicked NilDereference, w)
      | Some info \<Rightarrow>
         (if IsDir info then (Returned None, w)
          else
            (let rel = filepath_Rel env (Dest s) fn;
                 typ = mime_TypeByExtension env (filepath_Ext env rel);
                 got = ioutil_ReadFile env fn (fsys w);
                 w1 = logf MsgUploadFile rel w
             in (case got of
                   Inl rerr \<Rightarrow> (Returned (Some rerr), w1)
                 | Inr content \<Rightarrow>
                    (case s3_Put env b rel content typ s3_PublicRead (fsys w1) of
                       (perr, fs') \<Rightarrow> (Returned perr, w1\<lparr>fsys := fs'\<rparr>))))))"

definition Deploy :: "('fs, 'tm) env \<Rightarrow> 'tm Site \<Rightarrow> string \<Rightarrow> string \<Rightarrow> string \<Rightarrow> 'fs world
    \<Rightarrow> error option outcome \<times> 'fs world" where
  "Deploy env s user pass url w =
     (let auth = (user, pass);
          b = \<lparr>bucket_auth = auth, bucket_region = aws_USEast, bucket_name = url\<rparr>
      in walk (deploy_walker env s b) (filepath_Walk env (Dest s) (fsys w)) w)"

section \<open>Specification-level notions\<close>

text \<open>
  The category the \<open>switch\<close> of the walker of \<open>read\<close> gives a file, by the order of
  its cases. A file that falls through every case is recorded nowhere, exactly like a
  hidden file, so it is \<open>Ignored\<close> as well.
\<close>

datatype category = Ignored | Template | Post | Page | Static

definition classify :: "('fs, 'tm) env \<Rightarrow> 'fs \<Rightarrow> path \<Rightarrow> category" where
  "classify env fs rel =
     (if isHiddenOrTemp env rel fs then Ignored
      else if isTemplate env rel fs then Template
      else if isPost env rel fs then Post
      else if isPage env rel fs then Page
      else if isStatic env rel fs then Static
      else Ignored)"

text \<open>The URLs of the pages a run has rendered, in the order of the log.\<close>

definition rendered :: "'fs world \<Rightarrow> string list" where
  "rendered w = map snd (filter (\<lambda>m. fst m = MsgGenerateFile) (logged w))"

text \<open>
  The first two steps of \<open>Generate\<close> on the file system alone: remove the destination,
  then create it again.
\<close>

definition reset_dest :: "('fs, 'tm) env \<Rightarrow> 'tm Site \<Rightarrow> 'fs \<Rightarrow> error option \<times> 'fs" where
  "reset_dest env s fs =
     (case os_RemoveAll env (Dest s) fs of
        (Some err, fs1) \<Rightarrow> (Some err, fs1)
      | (None, fs1) \<Rightarrow> os_MkdirAll env (Dest s) fs1)"

text \<open>
  A call on the file system is kept by the reset when everything it changes is undone by
  removing the destination and creating it again: from the state the call leaves, the
  reset leads where it leads from the state the call found, whether the call fails or
  not. A call that only touches the destination tree is of this kind.
\<close>

definition kept_by_reset :: "('fs, 'tm) env \<Rightarrow> 'tm Site \<Rightarrow> ('fs \<Rightarrow> error option \<times> 'fs) \<Rightarrow> bool" where
  "kept_by_reset env s call = (\<forall>fs. reset_dest env s (snd (call fs)) = reset_dest env s fs)"

section \<open>An environment in memory\<close>

text \<open>
  A small, executable environment on which the functions above can be run: a tree of
  files and directories kept as a list in the order of creation, and the list of the
  objects uploaded so far. It stands in for the operating system in the concrete runs
  below; the general theorems hold for every environment.
\<close>

datatype node = File bytes | Directory | Unreadable

record memfs =
  tree :: "(path \<times> node) list"
  objects :: "(string \<times> bytes \<times> string) list"

fun starts_with :: "string \<Rightarrow> string \<Rightarrow> bool" where
  "starts_with [] s = True"
| "starts_with (c # cs) [] = False"
| "starts_with (c # cs) (d # ds) = (c = d \<and> starts_with cs ds)"

definition ends_with :: "string \<Rightarrow> string \<Rightarrow> bool" where
  "ends_with suf s = starts_with (rev suf) (rev s)"

definition path_under :: "path \<Rightarrow> path \<Rightarrow> bool" where
  "path_under d p = (p = d \<or> starts_with (d @ ''/'') p)"

definition mem_base :: "path \<Rightarrow> string" where
  "mem_base p = rev (takeWhile (\<lambda>c. c \<noteq> CHR ''/'') (rev p))"

definition mem_Join :: "path \<Rightarrow> path \<Rightarrow> path" where
  "mem_Join a b = (if b = ''.'' then a else a @ ''/'' @ b)"

definition mem_Rel :: "path \<Rightarrow> path \<Rightarrow> path" where
  "mem_Rel base p = (if starts_with (base @ ''/'') p then drop (length base + 1) p else p)"

definition mem_Dir :: "path \<Rightarrow> path" where
  "mem_Dir p =
     (if CHR ''/'' \<in> set p then rev (tl (dropWhile (\<lambda>c. c \<noteq> CHR ''/'') (rev p))) else ''.'')"

definition mem_Ext :: "path \<Rightarrow> string" where
  "mem_Ext p =
     (if CHR ''.'' \<in> set p then CHR ''.'' # rev (takeWhile (\<lambda>c. c \<noteq> CHR ''.'') (rev p)) else [])"

definition mem_entry :: "path \<times> node \<Rightarrow> entry" where
  "mem_entry pn =
     (case snd pn of
        File b \<Rightarrow> (fst pn, Some (FileInfo False), None)
      | Directory \<Rightarrow> (fst pn, Some (FileInfo True), None)
      | Unreadable \<Rightarrow> (fst pn, None, Some (Error ''lstat failed'')))"

text \<open>
  The order of \<open>filepath.Walk\<close>: a directory before what it holds, and the names in a
  directory in the order of their bytes. On paths this is the lexical order of the lists
  of their components.
\<close>

fun mem_split :: "string \<Rightarrow> path \<Rightarrow> string list" where
  "mem_split seen [] = [seen]"
| "mem_split seen (c # cs) =
     (if c = CHR ''/'' then seen # mem_split [] cs else mem_split (seen @ [c]) cs)"

fun name_less :: "string \<Rightarrow> string \<Rightarrow> bool" where
  "name_less [] [] = False"
| "name_less [] (d # ds) = True"
| "name_less (c # cs) [] = False"
| "name_less (c # cs) (d # ds) =
     (if c = d then name_less cs ds else (of_char c :: nat) < of_char d)"

fun names_less :: "string list \<Rightarrow> string list \<Rightarrow> bool" where
  "names_less [] [] = False"
| "names_less [] (y # ys) = True"
| "names_less (x # xs) [] = False"
| "names_less (x # xs) (y # ys) = (if x = y then names_less xs ys else name_less x y)"

fun insert_entry :: "path \<times> node \<Rightarrow> (path \<times> node) list \<Rightarrow> (path \<times> node) list" where
  "insert_entry x [] = [x]"
| "insert_entry x (y # ys) =
     (if names_less (mem_split [] (fst x)) (mem_split [] (fst y)) then x # y # ys
      else y # insert_entry x ys)"

text \<open>
  The calls of a walk: when the root is not there, the one call with a nil
  \<open>FileInfo\<close> and the error; otherwise the entries at and under the root in the order
  of the walk.
\<close>

definition mem_Walk :: "path \<Rightarrow> memfs \<Rightarrow> entry list" where
  "mem_Walk root fs =
     (case map_of (tree fs) root of
        None \<Rightarrow> [(root, None, Some (Error ''no such file or directory''))]
      | Some n \<Rightarrow>
          map mem_entry
            (foldr insert_entry (filter (\<lambda>pn. path_under root (fst pn)) (tree fs)) []))"

text \<open>
  The path and its ancestors, outermost first: \<open>a\<close>, \<open>a/b\<close>, \<open>a/b/c\<close> for the path
  \<open>a/b/c\<close>.
\<close>

fun mem_ancestors :: "path \<Rightarrow> path \<Rightarrow> path list" where
  "mem_ancestors seen [] = [seen]"
| "mem_ancestors seen (c # cs) =
     (if c = CHR ''/'' \<and> seen \<noteq> [] then seen # mem_ancestors (seen @ [c]) cs
      else mem_ancestors (seen @ [c]) cs)"

text \<open>
  Creating directories outermost first: a directory that is there is kept, one that is
  missing is created, and a path that is there but is no directory is the error
  \<open>ENOTDIR\<close>, with the directories created so far left in place.
\<close>

fun mem_mkdirs :: "path list \<Rightarrow> memfs \<Rightarrow> error option \<times> memfs" where
  "mem_mkdirs [] fs = (None, fs)"
| "mem_mkdirs (d # ds) fs =
     (case map_of (tree fs) d of
        None \<Rightarrow> mem_mkdirs ds (fs\<lparr>tree := tree fs @ [(d, Directory)]\<rparr>)
      | Some Directory \<Rightarrow> mem_mkdirs ds fs
      | Some n \<Rightarrow> (Some (Error ''not a directory''), fs))"

definition mem_MkdirAll :: "path \<Rightarrow> memfs \<Rightarrow> error option \<times> memfs" where
  "mem_MkdirAll d fs = (if d = ''.'' then (None, fs) else mem_mkdirs (mem_ancestors [] d) fs)"

definition mem_RemoveAll :: "path \<Rightarrow> memfs \<Rightarrow> error option \<times> memfs" where
  "mem_RemoveAll d fs = (None, fs\<lparr>tree := filter (\<lambda>pn. \<not> path_under d (fst pn)) (tree fs)\<rparr>)"

definition mem_ReadFile :: "path \<Rightarrow> memfs \<Rightarrow> error + bytes" where
  "mem_ReadFile f fs =
     (case map_of (tree fs) f of
        Some (File b) \<Rightarrow> Inr b
      | _ \<Rightarrow> Inl (Error ''cannot read''))"

text \<open>
  Writing a file needs its directory to be there; it replaces a file of the same path
  and fails on a directory of that path.
\<close>

definition mem_WriteFile :: "path \<Rightarrow> bytes \<Rightarrow> memfs \<Rightarrow> error option \<times> memfs" where
  "mem_WriteFile f b fs =
     (if mem_Dir f = ''.'' \<or> map_of (tree fs) (mem_Dir f) = Some Directory then
        (case map_of (tree fs) f of
           Some Directory \<Rightarrow> (Some (Error ''is a directory''), fs)
         | _ \<Rightarrow> (None, fs\<lparr>tree := filter (\<lambda>pn. fst pn \<noteq> f) (tree fs) @ [(f, File b)]\<rparr>))
      else (Some (Error ''no such file or directory''), fs))"

text \<open>Copying reads the source, creates the directory of the target and writes it.\<close>

definition mem_copyTo :: "path \<Rightarrow> path \<Rightarrow> memfs \<Rightarrow> error option \<times> memfs" where
  "mem_copyTo from to fs =
     (case mem_ReadFile from fs of
        Inl err \<Rightarrow> (Some err, fs)
      | Inr b \<Rightarrow>
         (case mem_MkdirAll (mem_Dir to) fs of
            (Some err, fs1) \<Rightarrow> (Some err, fs1)
          | (None, fs1) \<Rightarrow> mem_WriteFile to b fs1))"

definition mem_TypeByExtension :: "string \<Rightarrow> string" where
  "mem_TypeByExtension ext =
     (if ext = ''.html'' then ''text/html; charset=utf-8''
      else if ext = ''.css'' then ''text/css; charset=utf-8''
      else [])"

text \<open>
  A template set is the list of the templates by base name. Compiling fails when no file
  is named, when a file cannot be read, and when a file is the unclosed action \<open>{{\<close>.
\<close>

fun mem_compile :: "path list \<Rightarrow> memfs \<Rightarrow> error + (string \<times> bytes) list" where
  "mem_compile [] fs = Inr []"
| "mem_compile (f # rest) fs =
     (case mem_ReadFile f fs of
        Inl err \<Rightarrow> Inl err
      | Inr b \<Rightarrow>
         (if b = ''{{'' then Inl (Error ''unclosed action'')
          else (case mem_compile rest fs of
                  Inl err \<Rightarrow> Inl err
                | Inr t \<Rightarrow> Inr ((mem_base f, b) # t))))"

definition mem_ParseFiles :: "path list \<Rightarrow> memfs \<Rightarrow> error + (string \<times> bytes) list" where
  "mem_ParseFiles layouts fs =
     (if layouts = [] then Inl (Error ''no files named'') else mem_compile layouts fs)"

definition mem_ExecuteTemplate :: "(string \<times> bytes) list \<Rightarrow> string \<Rightarrow> render_data
    \<Rightarrow> bytes \<times> error option" where
  "mem_ExecuteTemplate t layout data =
     (case map_of t layout of
        None \<Rightarrow> ([], Some (Error ''no such template''))
      | Some body \<Rightarrow> (body @ data_content data, None))"

definition mem_Put :: "Bucket \<Rightarrow> string \<Rightarrow> bytes \<Rightarrow> string \<Rightarrow> string \<Rightarrow> memfs
    \<Rightarrow> error option \<times> memfs" where
  "mem_Put b key content typ acl fs = (None, fs\<lparr>objects := objects fs @ [(key, content, typ)]\<rparr>)"

definition mem_ParseConfig :: "path \<Rightarrow> memfs \<Rightarrow> error + Config" where
  "mem_ParseConfig p fs =
     (case mem_ReadFile p fs of
        Inl err \<Rightarrow> Inl err
      | Inr b \<Rightarrow> Inr [''title'' \<mapsto> Setting b])"

definition mem_ParsePost :: "path \<Rightarrow> memfs \<Rightarrow> error + Page" where
  "mem_ParsePost rel fs =
     Inr \<lparr>GetUrl = rel, GetContent = [], GetLayout = ''post'', GetCategories = [], GetTags = []\<rparr>"

definition mem_ParsePage :: "path \<Rightarrow> memfs \<Rightarrow> error + Page" where
  "mem_ParsePage rel fs =
     Inr \<lparr>GetUrl = rel, GetContent = [], GetLayout = ''page'', GetCategories = [], GetTags = []\<rparr>"

definition mem_appendExt :: "string \<Rightarrow> string \<Rightarrow> string" where
  "mem_appendExt name ext = (if ends_with ext name then name else name @ ext)"

definition mem_env :: "(memfs, (string \<times> bytes) list) env" where
  "mem_env =
     \<lparr>filepath_Join = mem_Join,
      filepath_Rel = mem_Rel,
      filepath_Dir = mem_Dir,
      filepath_Ext = mem_Ext,
      filepath_Walk = mem_Walk,
      os_MkdirAll = mem_MkdirAll,
      os_RemoveAll = mem_RemoveAll,
      ioutil_ReadFile = mem_ReadFile,
      ioutil_WriteFile = mem_WriteFile,
      mime_TypeByExtension = mem_TypeByExtension,
      template_ParseFiles = mem_ParseFiles,
      ExecuteTemplate = mem_ExecuteTemplate,
      blackfriday_MarkdownCommon = (\<lambda>raw. ''<p>'' @ raw @ ''</p>''),
      time_Now = 0,
      s3_Put = mem_Put,
      ParseConfig = mem_ParseConfig,
      ParsePost = mem_ParsePost,
      ParsePage = mem_ParsePage,
      isHiddenOrTemp = (\<lambda>rel fs. starts_with ''.'' (mem_base rel) \<or> ends_with ''~'' rel),
      isTemplate = (\<lambda>rel fs. starts_with ''_layouts'' rel \<or> starts_with ''_includes'' rel),
      isPost = (\<lambda>rel fs. starts_with ''_posts'' rel),
      isPage = (\<lambda>rel fs. ends_with ''.md'' rel),
      isStatic = (\<lambda>rel fs. \<not> starts_with ''_'' rel),
      appendExt = mem_appendExt,
      copyTo = mem_copyTo\<rparr>"

text \<open>A page, and a site with one post, one page and one static file.\<close>

definition page_about :: Page where
  "page_about = \<lparr>GetUrl = ''about.html'', GetContent = ''About'', GetLayout = ''page'',
     GetCategories = [], GetTags = []\<rparr>"

definition demo_site :: "(string \<times> bytes) list Site" where
  "demo_site = \<lparr>Src = ''src'', Dest = ''_site'', Conf = Map.empty,
     posts = [post_a], pages = [page_about], files = [''style.css''],
     templ = Some [(''post.html'', ''<article>''), (''page.html'', ''<main>'')]\<rparr>"

definition demo_world :: "memfs world" where
  "demo_world =
     \<lparr>fsys = \<lparr>tree = [(''src'', Directory), (''src/style.css'', File ''body{}'')], objects = []\<rparr>,
      logged = []\<rparr>"

text \<open>
  Worlds for the concrete runs below: one with no file at all, a source tree whose only
  layout is an unclosed action, and a destination with an entry that cannot be read.
\<close>

definition empty_world :: "memfs world" where
  "empty_world = \<lparr>fsys = \<lparr>tree = [], objects = []\<rparr>, logged = []\<rparr>"

definition bad_layout_world :: "memfs world" where
  "bad_layout_world =
     \<lparr>fsys = \<lparr>tree = [(''src'', Directory), (''src/_config.yml'', File ''title: demo''),
                       (''src/_layouts'', Directory), (''src/_layouts/bad.html'', File ''{{'')],
               objects = []\<rparr>,
      logged = []\<rparr>"

definition unreadable_world :: "memfs world" where
  "unreadable_world =
     \<lparr>fsys = \<lparr>tree = [(''_site'', Directory), (''_site/index.html'', File ''<main>''),
                       (''_site/locked'', Unreadable)],
               objects = []\<rparr>,
      logged = []\<rparr>"

text \<open>A page whose layout is not among the compiled templates.\<close>

definition page_broken :: Page where
  "page_broken = \<lparr>GetUrl = ''broken.html'', GetContent = ''Broken'', GetLayout = ''missing'',
     GetCategories = [], GetTags = []\<rparr>"

definition broken_site :: "(string \<times> bytes) list Site" where
  "broken_site = demo_site\<lparr>pages := [page_broken]\<rparr>"

lemmas mem_simps = mem_env_def mem_Join_def mem_Rel_def mem_Dir_def mem_Ext_def mem_Walk_def
  mem_entry_def mem_MkdirAll_def mem_RemoveAll_def mem_ReadFile_def mem_WriteFile_def
  mem_copyTo_def mem_TypeByExtension_def mem_ParseFiles_def mem_ExecuteTemplate_def mem_Put_def
  mem_ParseConfig_def mem_ParsePost_def mem_ParsePage_def mem_appendExt_def mem_base_def
  path_under_def ends_with_def

section \<open>Properties of the Aggregator\<close>

lemma bucket_insert_eq: "bucket_insert post label m = m(label \<mapsto> [post])"
  by (simp add: bucket_insert_def split: option.split)

lemma labels_loop_apply:
  "labels_loop post ls m l = (if l \<in> set ls then Some [post] else m l)"
  by (induction ls arbitrary: m) (auto simp: bucket_insert_eq)

text \<open>
  What the two loops compute: the bucket of a label holds only the last post of the list
  that declares the label.
\<close>

lemma posts_loop_apply:
  "posts_loop get ps m l =
     (case filter (\<lambda>p. l \<in> set (get p)) ps of
        [] \<Rightarrow> m l
      | q # qs \<Rightarrow> Some [last (q # qs)])"
proof (induction ps arbitrary: m)
  case Nil
  show ?case by simp
next
  case (Cons p ps)
  show ?case
    by (simp add: Cons.IH labels_loop_apply split: list.split)
qed

lemma tags_index_last:
  "tags_index ps l =
     (case filter (\<lambda>p. l \<in> set (GetTags p)) ps of
        [] \<Rightarrow> None
      | q # qs \<Rightarrow> Some [last (q # qs)])"
  by (simp add: tags_index_def posts_loop_apply)

lemma categories_index_last:
  "categories_index ps l =
     (case filter (\<lambda>p. l \<in> set (GetCategories p)) ps of
        [] \<Rightarrow> None
      | q # qs \<Rightarrow> Some [last (q # qs)])"
  by (simp add: categories_index_def posts_loop_apply)

text \<open>
  Claim C1. Every tag and category a post declares is a key of the index stored in the
  configuration, with the post in the list of that key. The code does not do this for
  two posts that share a label: after \<open>calculateTags\<close> and \<open>calculateCategories\<close> on
  the posts \<open>post_a\<close>, \<open>post_b\<close>, both labelled \<open>release\<close>, the bucket \<open>release\<close> of either
  index holds \<open>post_b\<close> alone, and \<open>post_a\<close>, which declares the label, is not in it.
\<close>

theorem calculateTags_drops_earlier_post:
  "post_a \<in> set (posts two_posts)
   \<and> ''release'' \<in> set (GetTags post_a)
   \<and> ''release'' \<in> set (GetCategories post_a)
   \<and> conf_index ''tags'' (calculateCategories (calculateTags two_posts)) ''release''
       = Some [post_b]
   \<and> conf_index ''categories'' (calculateCategories (calculateTags two_posts)) ''release''
       = Some [post_b]
   \<and> post_a \<notin> set [post_b]"
  by (simp add: two_posts_def post_a_def post_b_def conf_index_def calculateTags_def
      calculateCategories_def Conf_Set_def tags_index_def categories_index_def
      bucket_insert_def)

text \<open>
  Claim C2. The bucket of a label lists the posts that declare it in the order of the
  post list, one entry for each. On the two posts labelled \<open>release\<close> the posts declaring
  the label are \<open>post_a\<close>, \<open>post_b\<close> in that order, and the bucket the code builds is the
  one-element list of \<open>post_b\<close>, for tags and for categories.
\<close>

theorem aggregator_bucket_not_in_post_order:
  "filter (\<lambda>p. ''release'' \<in> set (GetTags p)) (posts two_posts) = [post_a, post_b]
   \<and> tags_index (posts two_posts) ''release'' = Some [post_b]
   \<and> filter (\<lambda>p. ''release'' \<in> set (GetCategories p)) (posts two_posts) = [post_a, post_b]
   \<and> categories_index (posts two_posts) ''release'' = Some [post_b]
   \<and> [post_b] \<noteq> [post_a, post_b]"
  by (simp add: two_posts_def post_a_def post_b_def tags_index_def categories_index_def
      bucket_insert_def)

section \<open>Properties of the loops and of the log\<close>

lemma walk_append:
  "walk walker (xs @ ys) st =
     (case walk walker xs st of
        (Returned None, st') \<Rightarrow> walk walker ys st'
      | (Returned (Some err), st') \<Rightarrow> (Returned (Some err), st')
      | (Panicked p, st') \<Rightarrow> (Panicked p, st'))"
  by (induction xs arbitrary: st) (auto split: prod.split outcome.split option.split)

lemma write_loop_append:
  "write_loop env s (xs @ ys) w =
     (case write_loop env s xs w of
        (Returned None, w') \<Rightarrow> write_loop env s ys w'
      | (Returned (Some err), w') \<Rightarrow> (Returned (Some err), w')
      | (Panicked p, w') \<Rightarrow> (Panicked p, w'))"
  by (induction xs arbitrary: w) (auto split: prod.split outcome.split option.split)

lemma rendered_logf:
  "rendered (logf fmt arg w) = rendered w @ (if fmt = MsgGenerateFile then [arg] else [])"
  by (simp add: rendered_def logf_def)

lemma rendered_fsys_update: "rendered (w\<lparr>fsys := x\<rparr>) = rendered w"
  by (simp add: rendered_def)

lemma fsys_logf: "fsys (logf fmt arg w) = fsys w"
  by (simp add: logf_def)

lemma write_page_rendered:
  "write_page env s pg w = (Returned None, w') \<Longrightarrow> rendered w' = rendered w @ [GetUrl pg]"
  by (auto simp: write_page_def Let_def rendered_logf rendered_fsys_update
      split: prod.splits option.splits)

lemma write_loop_rendered:
  "write_loop env s ps w = (Returned None, w') \<Longrightarrow> rendered w' = rendered w @ map GetUrl ps"
proof (induction ps arbitrary: w)
  case Nil
  then show ?case by simp
next
  case (Cons pg ps)
  from Cons.prems obtain v where v: "write_page env s pg w = (Returned None, v)"
    and rest: "write_loop env s ps v = (Returned None, w')"
    by (auto split: prod.splits outcome.splits option.splits)
  from write_page_rendered[OF v] Cons.IH[OF rest] show ?case by simp
qed

lemma Msg_distinct: "MsgCopyingFile \<noteq> MsgGenerateFile"
  by (simp add: MsgCopyingFile_def MsgGenerateFile_def)

lemma writeStatic_loop_rendered:
  "rendered (snd (writeStatic_loop env s fl w)) = rendered w"
  by (induction fl arbitrary: w)
     (auto simp: Let_def rendered_logf rendered_fsys_update Msg_distinct split: prod.splits option.splits)

lemma Clear_rendered: "rendered (snd (Clear env s w)) = rendered w"
  by (simp add: Clear_def rendered_fsys_update split: prod.split)

lemma Prep_rendered: "rendered (snd (Prep env s w)) = rendered w"
  by (simp add: Prep_def rendered_fsys_update split: prod.split)

lemma Generate_rendered:
  assumes "Generate env s w = (Returned None, w')"
  shows "rendered w' = rendered w @ map GetUrl (pages s) @ map GetUrl (posts s)"
proof -
  from assms obtain w1 w2 w3 where
    c: "Clear env s w = (None, w1)" and p: "Prep env s w1 = (None, w2)"
    and wp: "writePages env s w2 = (Returned None, w3)"
    and ws: "writeStatic env s w3 = (None, w')"
    by (auto simp: Generate_def split: prod.splits outcome.splits option.splits)
  from c Clear_rendered[of env s w] have "rendered w1 = rendered w" by simp
  moreover from p Prep_rendered[of env s w1] have "rendered w2 = rendered w1" by simp
  moreover from wp have "rendered w3 = rendered w2 @ map GetUrl (pages s @ posts s)"
    by (simp add: writePages_def write_loop_rendered)
  moreover from ws writeStatic_loop_rendered[of env s "files s" w3]
  have "rendered w' = rendered w3" by (simp add: writeStatic_def)
  ultimately show ?thesis by simp
qed

section \<open>The order of rendering\<close>

text \<open>
  Claim C3, as amended. \<open>Generate\<close> renders pages first and posts after them:
  \<open>writePages\<close> runs its loop over all of \<open>s.pages\<close>, and only when that returned nil
  does it run the loop over \<open>s.posts\<close>, in the world the pages left; and a run of
  \<open>Generate\<close> that returns nil has logged the rendering of the URLs of the pages, in
  their order, followed by those of the posts, in theirs.
\<close>

theorem writePages_pages_then_posts:
  "writePages env s w =
     (case write_loop env s (pages s) w of
        (Returned None, w1) \<Rightarrow> write_loop env s (posts s) w1
      | (Returned (Some err), w1) \<Rightarrow> (Returned (Some err), w1)
      | (Panicked p, w1) \<Rightarrow> (Panicked p, w1))
   \<and> (Generate env s w = (Returned None, w') \<longrightarrow>
        rendered w' = rendered w @ map GetUrl (pages s) @ map GetUrl (posts s))"
  by (simp add: writePages_def write_loop_append Generate_rendered)

text \<open>A run on the site with one page, one post and one static file.\<close>

theorem writePages_pages_then_posts_witness:
  "Generate mem_env demo_site demo_world = (Returned None, snd (Generate mem_env demo_site demo_world))
   \<and> rendered (snd (Generate mem_env demo_site demo_world)) = [''about.html'', ''2012/01/01/a.html'']"
proof -
  have ok: "Generate mem_env demo_site demo_world = (Returned None, snd (Generate mem_env demo_site demo_world))"
    by code_simp
  have "rendered (snd (Generate mem_env demo_site demo_world)) =
      rendered demo_world @ map GetUrl (pages demo_site) @ map GetUrl (posts demo_site)"
    using writePages_pages_then_posts[of mem_env demo_site demo_world "snd (Generate mem_env demo_site demo_world)"] ok
    by blast
  then show ?thesis using ok
    by (simp add: demo_site_def demo_world_def rendered_def page_about_def post_a_def)
qed

text \<open>
  Claim C3 as stated fails: on that site, whose post and page lists are not empty, the
  page is rendered and written before the post.
\<close>

theorem Generate_posts_not_first:
  "posts demo_site \<noteq> [] \<and> pages demo_site \<noteq> []
   \<and> fst (Generate mem_env demo_site demo_world) = Returned None
   \<and> rendered (snd (Generate mem_env demo_site demo_world))
       = map GetUrl (pages demo_site) @ map GetUrl (posts demo_site)
   \<and> rendered (snd (Generate mem_env demo_site demo_world))
       \<noteq> map GetUrl (posts demo_site) @ map GetUrl (pages demo_site)
   \<and> map fst (tree (fsys (snd (Generate mem_env demo_site demo_world))))
       = [''src'', ''src/style.css'', ''_site'', ''_site/about.html'', ''_site/2012'',
          ''_site/2012/01'', ''_site/2012/01/01'', ''_site/2012/01/01/a.html'',
          ''_site/style.css'']"
  by code_simp

section \<open>Errors while writing pages\<close>

text \<open>
  The two calls on the file system in the loop of \<open>writePages\<close> are checked: when the
  destination was cleared and created and the pages before \<open>pg\<close> were written, and
  creating the directory of \<open>pg\<close> fails with \<open>err\<close>, or that succeeds and writing the
  file of \<open>pg\<close> fails with \<open>err\<close>, then \<open>Generate\<close> returns \<open>err\<close> in the world the
  failing call left, and nothing after it is rendered or copied.
\<close>

lemma Generate_stops_at_first_io_error:
  assumes "Clear env s w = (None, w1)"
    and "Prep env s w1 = (None, w2)"
    and "pages s @ posts s = before @ pg # after"
    and "write_loop env s before w2 = (Returned None, w3)"
    and "templ s = Some t"
    and "os_MkdirAll env (filepath_Join env (Dest s) (filepath_Dir env (GetUrl pg))) (fsys w3)
           = (m, fs1)"
    and "ioutil_WriteFile env (filepath_Join env (Dest s) (GetUrl pg))
           (fst (ExecuteTemplate env t (appendExt env (GetLayout pg) ''.html'')
              \<lparr>data_site = Conf s, data_page = pg,
                data_content = blackfriday_MarkdownCommon env (GetContent pg)\<rparr>)) fs1
           = (x, fs2)"
    and "m = Some err \<or> (m = None \<and> x = Some err)"
  shows "Generate env s w
           = (Returned (Some err),
              if m = Some err then w3\<lparr>fsys := fs1\<rparr>
              else (logf MsgGenerateFile (GetUrl pg) w3)\<lparr>fsys := fs2\<rparr>)
     \<and> rendered (snd (Generate env s w))
           = rendered w @ map GetUrl before @ (if m = Some err then [] else [GetUrl pg])"
proof -
  let ?stop = "if m = Some err then w3\<lparr>fsys := fs1\<rparr>
               else (logf MsgGenerateFile (GetUrl pg) w3)\<lparr>fsys := fs2\<rparr>"
  have page: "write_page env s pg w3 = (Returned (Some err), ?stop)"
    using assms(5-8) by (auto simp: write_page_def Let_def logf_def)
  have "writePages env s w2 = (Returned (Some err), ?stop)"
    using assms(3,4) page by (simp add: writePages_def write_loop_append)
  then have g: "Generate env s w = (Returned (Some err), ?stop)"
    using assms(1,2) by (simp add: Generate_def)
  have r1: "rendered w1 = rendered w"
    using assms(1) Clear_rendered[of env s w] by simp
  have r2: "rendered w2 = rendered w1"
    using assms(2) Prep_rendered[of env s w1] by simp
  have r3: "rendered w3 = rendered w @ map GetUrl before"
    using write_loop_rendered[OF assms(4)] r1 r2 by simp
  have "rendered ?stop = rendered w3 @ (if m = Some err then [] else [GetUrl pg])"
    by (simp add: rendered_logf rendered_fsys_update)
  with g r3 show ?thesis by simp
qed

text \<open>
  The call between them is not: whatever error \<open>ExecuteTemplate\<close> returns, the page is
  written as if there were none. Replacing the error of every template execution by any
  other value changes nothing in what \<open>write_page\<close> does.
\<close>

lemma write_page_drops_template_error:
  "write_page (env\<lparr>ExecuteTemplate := \<lambda>t layout data. (fst (ExecuteTemplate env t layout data), e t layout data)\<rparr>)
     s pg w = write_page env s pg w"
  by (simp add: write_page_def Let_def split: prod.split option.split)

text \<open>
  Claim C4. A page or post whose template execution fails makes \<open>Generate\<close> return an
  error naming the page, with no file written for that page and no later page rendered.
  The code does not do this. The first page of the site below names a layout that was
  not compiled, so executing its template returns an error; \<open>Generate\<close> returns nil all
  the same, the file of that page is written (empty), and the post after it is rendered.
\<close>

theorem Generate_ignores_template_error:
  "pages broken_site @ posts broken_site = [page_broken, post_a]
   \<and> templ broken_site = Some [(''post.html'', ''<article>''), (''page.html'', ''<main>'')]
   \<and> snd (ExecuteTemplate mem_env [(''post.html'', ''<article>''), (''page.html'', ''<main>'')]
        (appendExt mem_env (GetLayout page_broken) ''.html'')
        \<lparr>data_site = Conf broken_site, data_page = page_broken,
          data_content = blackfriday_MarkdownCommon mem_env (GetContent page_broken)\<rparr>)
       = Some (Error ''no such template'')
   \<and> fst (Generate mem_env broken_site demo_world) = Returned None
   \<and> map_of (tree (fsys (snd (Generate mem_env broken_site demo_world)))) ''_site/broken.html''
       = Some (File [])
   \<and> rendered (snd (Generate mem_env broken_site demo_world))
       = [''broken.html'', ''2012/01/01/a.html'']"
  by code_simp

section \<open>Errors while loading\<close>

text \<open>
  Claim C5, as amended. When the configuration parses and the walk succeeds, but the
  compilation of the layouts found fails with \<open>cerr\<close>, \<open>NewSite\<close> panics
  (\<open>template.Must\<close>) with that error: it returns nothing to its caller, neither an
  error nor a site.
\<close>

theorem NewSite_panics_on_template_error:
  assumes "ParseConfig env (filepath_Join env src ''_config.yml'') (fsys w) = Inr conf"
    and "walk (read_walker env (fsys w)) (filepath_Walk env src (fsys w))
           (\<lparr>Src = src, Dest = dest, Conf = conf, posts = [], pages = [], files = [],
             templ = None\<rparr>, []) = (Returned None, (s, layouts))"
    and "template_ParseFiles env layouts (fsys w) = Inl cerr"
  shows "NewSite env src dest w
           = (Panicked (MustFailed cerr),
              logf MsgUsingConfig (filepath_Join env src ''_config.yml'') w)
         \<and> (\<forall>r. fst (NewSite env src dest w) \<noteq> Returned r)"
  using assms by (simp add: NewSite_def read_def Let_def fsys_logf)

text \<open>A source tree whose only layout is an unclosed action.\<close>

theorem NewSite_panics_on_template_error_witness:
  "template_ParseFiles mem_env [''src/_layouts/bad.html''] (fsys bad_layout_world)
     = Inl (Error ''unclosed action'')
   \<and> NewSite mem_env ''src'' ''_site'' bad_layout_world
     = (Panicked (MustFailed (Error ''unclosed action'')),
        logf MsgUsingConfig ''src/_config.yml'' bad_layout_world)"
proof -
  have a: "ParseConfig mem_env (filepath_Join mem_env ''src'' ''_config.yml'') (fsys bad_layout_world)
     = Inr [''title'' \<mapsto> Setting ''title: demo'']"
    by (simp add: mem_env_def mem_Join_def mem_ParseConfig_def mem_ReadFile_def bad_layout_world_def)
  have b: "walk (read_walker mem_env (fsys bad_layout_world))
             (filepath_Walk mem_env ''src'' (fsys bad_layout_world))
             (\<lparr>Src = ''src'', Dest = ''_site'', Conf = [''title'' \<mapsto> Setting ''title: demo''],
               posts = [], pages = [], files = [], templ = None\<rparr>, [])
           = (Returned None,
              (\<lparr>Src = ''src'', Dest = ''_site'', Conf = [''title'' \<mapsto> Setting ''title: demo''],
               posts = [], pages = [], files = [], templ = None\<rparr>, [''src/_layouts/bad.html'']))"
    by (simp add: mem_env_def mem_Walk_def mem_entry_def mem_Rel_def path_under_def ends_with_def
        mem_base_def bad_layout_world_def)
  have c: "template_ParseFiles mem_env [''src/_layouts/bad.html''] (fsys bad_layout_world)
     = Inl (Error ''unclosed action'')"
    by code_simp
  have j: "filepath_Join mem_env ''src'' ''_config.yml'' = ''src/_config.yml''"
    by code_simp
  from NewSite_panics_on_template_error[OF a b c] c j show ?thesis by simp
qed

text \<open>
  Claim C5 as stated fails: on that tree the compilation fails and \<open>NewSite\<close> does not
  return the error, it panics.
\<close>

theorem NewSite_does_not_return_compile_error:
  "template_ParseFiles mem_env [''src/_layouts/bad.html''] (fsys bad_layout_world)
     = Inl (Error ''unclosed action'')
   \<and> fst (NewSite mem_env ''src'' ''_site'' bad_layout_world)
     = Panicked (MustFailed (Error ''unclosed action''))
   \<and> fst (NewSite mem_env ''src'' ''_site'' bad_layout_world)
     \<noteq> Returned (None, Some (Error ''unclosed action''))"
  by (simp add: NewSite_def read_def Let_def fsys_logf mem_simps bad_layout_world_def)

text \<open>
  Claim C6. When the configuration file is missing or does not parse, that is, when
  \<open>ParseConfig\<close> returns the error \<open>err\<close>, \<open>NewSite\<close> returns the nil site together
  with \<open>err\<close>. Nothing but the log line has happened: the tree is not walked and no list
  of a site is filled.
\<close>

theorem NewSite_config_error:
  "ParseConfig env (filepath_Join env src ''_config.yml'') (fsys w) = Inl err \<Longrightarrow>
   NewSite env src dest w
     = (Returned (None, Some err), logf MsgUsingConfig (filepath_Join env src ''_config.yml'') w)"
  by (simp add: NewSite_def Let_def)

text \<open>A source root without a configuration file.\<close>

theorem NewSite_config_error_witness:
  "ParseConfig mem_env (filepath_Join mem_env ''src'' ''_config.yml'') (fsys empty_world)
     = Inl (Error ''cannot read'')
   \<and> NewSite mem_env ''src'' ''_site'' empty_world
     = (Returned (None, Some (Error ''cannot read'')),
        \<lparr>fsys = \<lparr>tree = [], objects = []\<rparr>,
         logged = [(''Loading Config: %s'', ''src/_config.yml'')]\<rparr>)"
proof -
  have h: "ParseConfig mem_env (filepath_Join mem_env ''src'' ''_config.yml'') (fsys empty_world)
     = Inl (Error ''cannot read'')"
    by (simp add: mem_simps empty_world_def)
  have l: "logf MsgUsingConfig (filepath_Join mem_env ''src'' ''_config.yml'') empty_world
     = \<lparr>fsys = \<lparr>tree = [], objects = []\<rparr>,
         logged = [(''Loading Config: %s'', ''src/_config.yml'')]\<rparr>"
    by (simp add: mem_simps empty_world_def logf_def MsgUsingConfig_def)
  from NewSite_config_error[OF h, of "''_site''"] h l show ?thesis by simp
qed

section \<open>The classification of the source files\<close>

text \<open>
  Claim C7. For a file the walk meets, the walker of \<open>read\<close> acts on exactly one
  category, the one \<open>classify\<close> computes: an ignored file changes nothing, a template
  is added to the layouts, a post or a page is parsed and added to its list (or its parse
  error is returned), a static file is added to the files; so the four lists grow by at
  most one entry in all. A hidden or temporary path is ignored whatever the other
  predicates say. A directory is never classified: the walker returns nil and changes
  nothing.
\<close>

theorem read_walker_classifies:
  "read_walker env fs (fn, Some (FileInfo False), None) (s, layouts) =
     (case classify env fs (filepath_Rel env (Src s) fn) of
        Ignored \<Rightarrow> (Returned None, (s, layouts))
      | Template \<Rightarrow> (Returned None, (s, layouts @ [fn]))
      | Post \<Rightarrow>
          (case ParsePost env (filepath_Rel env (Src s) fn) fs of
             Inl perr \<Rightarrow> (Returned (Some perr), (s, layouts))
           | Inr post \<Rightarrow> (Returned None, (s\<lparr>posts := posts s @ [post]\<rparr>, layouts)))
      | Page \<Rightarrow>
          (case ParsePage env (filepath_Rel env (Src s) fn) fs of
             Inl perr \<Rightarrow> (Returned (Some perr), (s, layouts))
           | Inr pg \<Rightarrow> (Returned None, (s\<lparr>pages := pages s @ [pg]\<rparr>, layouts)))
      | Static \<Rightarrow>
          (Returned None, (s\<lparr>files := files s @ [filepath_Rel env (Src s) fn]\<rparr>, layouts)))
   \<and> (isHiddenOrTemp env (filepath_Rel env (Src s) fn) fs \<longrightarrow>
        classify env fs (filepath_Rel env (Src s) fn) = Ignored
        \<and> read_walker env fs (fn, Some (FileInfo False), None) (s, layouts)
             = (Returned None, (s, layouts)))
   \<and> length (snd (snd (read_walker env fs (fn, Some (FileInfo False), None) (s, layouts))))
       + length (posts (fst (snd (read_walker env fs (fn, Some (FileInfo False), None) (s, layouts)))))
       + length (pages (fst (snd (read_walker env fs (fn, Some (FileInfo False), None) (s, layouts)))))
       + length (files (fst (snd (read_walker env fs (fn, Some (FileInfo False), None) (s, layouts)))))
       \<le> Suc (length layouts + length (posts s) + length (pages s) + length (files s))
   \<and> read_walker env fs (fn, Some (FileInfo True), None) (s, layouts)
        = (Returned None, (s, layouts))"
  by (simp add: classify_def Let_def split: sum.split)

text \<open>A hidden file under the layouts directory: hidden wins over template.\<close>

theorem read_walker_classifies_witness:
  "isHiddenOrTemp mem_env (filepath_Rel mem_env (Src demo_site) ''src/_layouts/.draft.html'')
     (fsys demo_world)
   \<and> isTemplate mem_env (filepath_Rel mem_env (Src demo_site) ''src/_layouts/.draft.html'')
     (fsys demo_world)
   \<and> classify mem_env (fsys demo_world)
        (filepath_Rel mem_env (Src demo_site) ''src/_layouts/.draft.html'') = Ignored
   \<and> read_walker mem_env (fsys demo_world)
        (''src/_layouts/.draft.html'', Some (FileInfo False), None) (demo_site, [])
      = (Returned None, (demo_site, []))"
proof -
  have h: "isHiddenOrTemp mem_env (filepath_Rel mem_env (Src demo_site) ''src/_layouts/.draft.html'')
     (fsys demo_world)"
    by code_simp
  have t: "isTemplate mem_env (filepath_Rel mem_env (Src demo_site) ''src/_layouts/.draft.html'')
     (fsys demo_world)"
    by code_simp
  from read_walker_classifies[of mem_env "fsys demo_world" "''src/_layouts/.draft.html''"
      demo_site "[]"] h t
  show ?thesis by blast
qed

section \<open>Running Generate twice\<close>

lemma write_page_fsys:
  "fsys w = fsys v \<Longrightarrow>
   fst (write_page env s pg w) = fst (write_page env s pg v)
   \<and> fsys (snd (write_page env s pg w)) = fsys (snd (write_page env s pg v))"
  by (simp add: write_page_def Let_def fsys_logf split: prod.split option.split)

lemma write_loop_fsys:
  "fsys w = fsys v \<Longrightarrow>
   fst (write_loop env s ps w) = fst (write_loop env s ps v)
   \<and> fsys (snd (write_loop env s ps w)) = fsys (snd (write_loop env s ps v))"
proof (induction ps arbitrary: w v)
  case Nil
  then show ?case by simp
next
  case (Cons pg ps)
  obtain r w1 where a: "write_page env s pg w = (r, w1)" by fastforce
  obtain r' v1 where b: "write_page env s pg v = (r', v1)" by fastforce
  from write_page_fsys[OF Cons.prems, of env s pg] a b
  have eq: "r' = r" "fsys w1 = fsys v1" by simp_all
  show ?case
  proof (cases r)
    case (Panicked p)
    with a b eq show ?thesis by simp
  next
    case (Returned x)
    show ?thesis
    proof (cases x)
      case None
      with Returned a b eq Cons.IH[OF eq(2)] show ?thesis by simp
    next
      case (Some e)
      with Returned a b eq show ?thesis by simp
    qed
  qed
qed

lemma writeStatic_loop_fsys:
  "fsys w = fsys v \<Longrightarrow>
   fst (writeStatic_loop env s fl w) = fst (writeStatic_loop env s fl v)
   \<and> fsys (snd (writeStatic_loop env s fl w)) = fsys (snd (writeStatic_loop env s fl v))"
proof (induction fl arbitrary: w v)
  case Nil
  then show ?case by simp
next
  case (Cons f fl)
  let ?from = "filepath_Join env (Src s) f"
  let ?to = "filepath_Join env (Dest s) f"
  obtain r fs' where c: "copyTo env ?from ?to (fsys v) = (r, fs')" by fastforce
  show ?case
  proof (cases r)
    case None
    have "fsys ((logf MsgCopyingFile f w)\<lparr>fsys := fs'\<rparr>)
        = fsys ((logf MsgCopyingFile f v)\<lparr>fsys := fs'\<rparr>)"
      by simp
    from Cons.IH[OF this] None c Cons.prems show ?thesis
      by (simp add: Let_def fsys_logf)
  next
    case (Some e)
    with c Cons.prems show ?thesis by (simp add: Let_def fsys_logf)
  qed
qed

lemma pages_then_static_fsys:
  assumes "fsys a = fsys b"
  shows "fst (case writePages env s a of
                (Panicked p, w3) \<Rightarrow> (Panicked p, w3)
              | (Returned (Some err), w3) \<Rightarrow> (Returned (Some err), w3)
              | (Returned None, w3) \<Rightarrow>
                 (case writeStatic env s w3 of
                    (Some err, w4) \<Rightarrow> (Returned (Some err), w4)
                  | (None, w4) \<Rightarrow> (Returned None, w4)))
       = fst (case writePages env s b of
                (Panicked p, w3) \<Rightarrow> (Panicked p, w3)
              | (Returned (Some err), w3) \<Rightarrow> (Returned (Some err), w3)
              | (Returned None, w3) \<Rightarrow>
                 (case writeStatic env s w3 of
                    (Some err, w4) \<Rightarrow> (Returned (Some err), w4)
                  | (None, w4) \<Rightarrow> (Returned None, w4)))
     \<and> fsys (snd (case writePages env s a of
                (Panicked p, w3) \<Rightarrow> (Panicked p, w3)
              | (Returned (Some err), w3) \<Rightarrow> (Returned (Some err), w3)
              | (Returned None, w3) \<Rightarrow>
                 (case writeStatic env s w3 of
                    (Some err, w4) \<Rightarrow> (Returned (Some err), w4)
                  | (None, w4) \<Rightarrow> (Returned None, w4))))
       = fsys (snd (case writePages env s b of
                (Panicked p, w3) \<Rightarrow> (Panicked p, w3)
              | (Returned (Some err), w3) \<Rightarrow> (Returned (Some err), w3)
              | (Returned None, w3) \<Rightarrow>
                 (case writeStatic env s w3 of
                    (Some err, w4) \<Rightarrow> (Returned (Some err), w4)
                  | (None, w4) \<Rightarrow> (Returned None, w4))))"
proof -
  obtain r a3 where pa: "writePages env s a = (r, a3)" by fastforce
  obtain r' b3 where pb: "writePages env s b = (r', b3)" by fastforce
  from write_loop_fsys[OF assms, of env s "([] @ pages s) @ posts s"] pa pb
  have eq: "r' = r" "fsys a3 = fsys b3" by (simp_all add: writePages_def)
  obtain q a4 where sa: "writeStatic env s a3 = (q, a4)" by fastforce
  obtain q' b4 where sb: "writeStatic env s b3 = (q', b4)" by fastforce
  from writeStatic_loop_fsys[OF eq(2), of env s "files s"] sa sb
  have eq2: "q' = q" "fsys a4 = fsys b4" by (simp_all add: writeStatic_def)
  from pa pb eq sa sb eq2 show ?thesis
    by (simp split: outcome.split option.split)
qed

lemma Generate_after_reset:
  assumes "reset_dest env s (fsys w) = reset_dest env s (fsys v)"
  shows "fst (Generate env s w) = fst (Generate env s v)
     \<and> fsys (snd (Generate env s w)) = fsys (snd (Generate env s v))"
proof -
  obtain c fs1 where rw: "os_RemoveAll env (Dest s) (fsys w) = (c, fs1)" by fastforce
  obtain c' fs1' where rv: "os_RemoveAll env (Dest s) (fsys v) = (c', fs1')" by fastforce
  obtain m fs2 where mw: "os_MkdirAll env (Dest s) fs1 = (m, fs2)" by fastforce
  obtain m' fs2' where mv: "os_MkdirAll env (Dest s) fs1' = (m', fs2')" by fastforce
  have ps: "fs2 = fs2' \<Longrightarrow> ?thesis" if "c = None" "c' = None" "m = None" "m' = None"
    using that rw rv mw mv
      pages_then_static_fsys[of "w\<lparr>fsys := fs1, fsys := fs2\<rparr>" "v\<lparr>fsys := fs1', fsys := fs2'\<rparr>" env s]
    by (simp add: Generate_def Clear_def Prep_def)
  from assms rw rv mw mv ps show ?thesis
    by (cases c; cases c'; cases m; cases m')
       (auto simp: reset_dest_def Generate_def Clear_def Prep_def)
qed

text \<open>
  Every change \<open>Generate\<close> makes to the file system is made by one of its calls:
  removing and creating the destination, creating the directory of a page and writing
  its file, copying a static file. When each of them is kept by the reset, so is the
  whole run.
\<close>

lemma kept_by_resetD:
  "kept_by_reset env s call \<Longrightarrow> call fs = (e, fs') \<Longrightarrow> reset_dest env s fs' = reset_dest env s fs"
  by (auto simp: kept_by_reset_def dest: spec[of _ fs])

lemma write_page_reset:
  assumes "kept_by_reset env s (os_MkdirAll env (filepath_Join env (Dest s) (filepath_Dir env (GetUrl pg))))"
    and "\<forall>buf. kept_by_reset env s (ioutil_WriteFile env (filepath_Join env (Dest s) (GetUrl pg)) buf)"
  shows "reset_dest env s (fsys (snd (write_page env s pg w))) = reset_dest env s (fsys w)"
proof -
  let ?d = "filepath_Join env (Dest s) (filepath_Dir env (GetUrl pg))"
  let ?f = "filepath_Join env (Dest s) (GetUrl pg)"
  obtain m fs1 where mk: "os_MkdirAll env ?d (fsys w) = (m, fs1)" by fastforce
  have r1: "reset_dest env s fs1 = reset_dest env s (fsys w)"
    by (rule kept_by_resetD[OF assms(1) mk])
  show ?thesis
  proof (cases m)
    case (Some e)
    with mk r1 show ?thesis by (simp add: write_page_def Let_def)
  next
    case None
    show ?thesis
    proof (cases "templ s")
      case no_templ: None
      with None mk r1 show ?thesis by (simp add: write_page_def Let_def)
    next
      case (Some t)
      let ?buf = "fst (ExecuteTemplate env t (appendExt env (GetLayout pg) ''.html'')
          \<lparr>data_site = Conf s, data_page = pg,
            data_content = blackfriday_MarkdownCommon env (GetContent pg)\<rparr>)"
      obtain x fs2 where wr: "ioutil_WriteFile env ?f ?buf fs1 = (x, fs2)" by fastforce
      have kw: "kept_by_reset env s (ioutil_WriteFile env ?f ?buf)"
        using assms(2) by simp
      have r2: "reset_dest env s fs2 = reset_dest env s fs1"
        by (rule kept_by_resetD[OF kw wr])
      from None Some mk wr r1 r2 show ?thesis
        by (simp add: write_page_def Let_def fsys_logf split: option.split)
    qed
  qed
qed

lemma write_loop_reset:
  assumes "\<forall>pg \<in> set ps. kept_by_reset env s
             (os_MkdirAll env (filepath_Join env (Dest s) (filepath_Dir env (GetUrl pg))))"
    and "\<forall>pg \<in> set ps. \<forall>buf. kept_by_reset env s
             (ioutil_WriteFile env (filepath_Join env (Dest s) (GetUrl pg)) buf)"
  shows "reset_dest env s (fsys (snd (write_loop env s ps w))) = reset_dest env s (fsys w)"
  using assms
proof (induction ps arbitrary: w)
  case Nil
  show ?case by simp
next
  case (Cons pg ps)
  obtain r w1 where a: "write_page env s pg w = (r, w1)" by fastforce
  have p: "reset_dest env s (fsys w1) = reset_dest env s (fsys w)"
    using write_page_reset[of env s pg w] Cons.prems a by simp
  have rest: "reset_dest env s (fsys (snd (write_loop env s ps w1))) = reset_dest env s (fsys w1)"
    using Cons.IH[of w1] Cons.prems by simp
  show ?case
    using a p rest by (simp split: outcome.split option.split)
qed

lemma writeStatic_loop_reset:
  assumes "\<forall>f \<in> set fl. kept_by_reset env s
             (copyTo env (filepath_Join env (Src s) f) (filepath_Join env (Dest s) f))"
  shows "reset_dest env s (fsys (snd (writeStatic_loop env s fl w))) = reset_dest env s (fsys w)"
  using assms
proof (induction fl arbitrary: w)
  case Nil
  show ?case by simp
next
  case (Cons f fl)
  let ?w1 = "logf MsgCopyingFile f w"
  obtain c fs' where cp: "copyTo env (filepath_Join env (Src s) f) (filepath_Join env (Dest s) f) (fsys w)
      = (c, fs')" by fastforce
  have kc: "kept_by_reset env s
      (copyTo env (filepath_Join env (Src s) f) (filepath_Join env (Dest s) f))"
    using Cons.prems by simp
  have k: "reset_dest env s fs' = reset_dest env s (fsys w)"
    by (rule kept_by_resetD[OF kc cp])
  have rest: "reset_dest env s (fsys (snd (writeStatic_loop env s fl (?w1\<lparr>fsys := fs'\<rparr>))))
      = reset_dest env s fs'"
    using Cons.IH[of "?w1\<lparr>fsys := fs'\<rparr>"] Cons.prems by simp
  show ?case
    using cp k rest by (simp add: Let_def fsys_logf split: option.split)
qed

lemma Generate_reset:
  assumes "kept_by_reset env s (os_RemoveAll env (Dest s))"
    and "kept_by_reset env s (os_MkdirAll env (Dest s))"
    and "\<forall>pg \<in> set (pages s @ posts s). kept_by_reset env s
           (os_MkdirAll env (filepath_Join env (Dest s) (filepath_Dir env (GetUrl pg))))"
    and "\<forall>pg \<in> set (pages s @ posts s). \<forall>buf. kept_by_reset env s
           (ioutil_WriteFile env (filepath_Join env (Dest s) (GetUrl pg)) buf)"
    and "\<forall>f \<in> set (files s). kept_by_reset env s
           (copyTo env (filepath_Join env (Src s) f) (filepath_Join env (Dest s) f))"
  shows "reset_dest env s (fsys (snd (Generate env s w))) = reset_dest env s (fsys w)"
proof -
  obtain c w1 where cl: "Clear env s w = (c, w1)" by fastforce
  obtain m w2 where pr: "Prep env s w1 = (m, w2)" by fastforce
  obtain r w3 where wp: "writePages env s w2 = (r, w3)" by fastforce
  obtain q w4 where ws: "writeStatic env s w3 = (q, w4)" by fastforce
  have k1: "reset_dest env s (fsys w1) = reset_dest env s (fsys w)"
    using cl assms(1) by (auto simp: Clear_def split: prod.splits dest: kept_by_resetD)
  have k2: "reset_dest env s (fsys w2) = reset_dest env s (fsys w1)"
    using pr assms(2) by (auto simp: Prep_def split: prod.splits dest: kept_by_resetD)
  have k3: "reset_dest env s (fsys w3) = reset_dest env s (fsys w2)"
    using wp write_loop_reset[of "([] @ pages s) @ posts s" env s w2] assms(3,4)
    by (simp add: writePages_def)
  have k4: "reset_dest env s (fsys w4) = reset_dest env s (fsys w3)"
    using ws writeStatic_loop_reset[of "files s" env s w3] assms(5)
    by (simp add: writeStatic_def)
  show ?thesis
    using cl pr wp ws k1 k2 k3 k4
    by (simp add: Generate_def split: outcome.split option.split)
qed

text \<open>
  The calls of the file system in memory are kept by the reset whenever the paths they
  create or write lie in the destination: the reset filters the destination tree out.
\<close>

lemma mem_reset_dest_eq:
  assumes "filter (\<lambda>pn. \<not> path_under (Dest s) (fst pn)) (tree fs')
      = filter (\<lambda>pn. \<not> path_under (Dest s) (fst pn)) (tree fs)"
    and "objects fs' = objects fs"
  shows "reset_dest mem_env s fs' = reset_dest mem_env s fs"
proof -
  have "fs'\<lparr>tree := filter (\<lambda>pn. \<not> path_under (Dest s) (fst pn)) (tree fs')\<rparr>
      = fs\<lparr>tree := filter (\<lambda>pn. \<not> path_under (Dest s) (fst pn)) (tree fs)\<rparr>"
    using assms by (cases fs; cases fs') simp
  then show ?thesis
    by (simp add: reset_dest_def mem_env_def mem_RemoveAll_def)
qed

lemma mem_RemoveAll_outside:
  "filter (\<lambda>pn. \<not> path_under d (fst pn)) (tree (snd (mem_RemoveAll d fs)))
     = filter (\<lambda>pn. \<not> path_under d (fst pn)) (tree fs)
   \<and> objects (snd (mem_RemoveAll d fs)) = objects fs"
  by (simp add: mem_RemoveAll_def)

lemma mem_mkdirs_outside:
  "\<forall>q \<in> set qs. path_under d q \<Longrightarrow>
   filter (\<lambda>pn. \<not> path_under d (fst pn)) (tree (snd (mem_mkdirs qs fs)))
     = filter (\<lambda>pn. \<not> path_under d (fst pn)) (tree fs)
   \<and> objects (snd (mem_mkdirs qs fs)) = objects fs"
proof (induction qs arbitrary: fs)
  case Nil
  show ?case by simp
next
  case (Cons q qs)
  then have u: "path_under d q" and rest: "\<forall>q \<in> set qs. path_under d q" by simp_all
  show ?case
  proof (cases "map_of (tree fs) q")
    case None
    with Cons.IH[OF rest, of "fs\<lparr>tree := tree fs @ [(q, Directory)]\<rparr>"] u
    show ?thesis by simp
  next
    case (Some n)
    with Cons.IH[OF rest, of fs] show ?thesis by (cases n) simp_all
  qed
qed

lemma mem_MkdirAll_outside:
  "\<forall>q \<in> set (mem_ancestors [] p). path_under d q \<Longrightarrow>
   filter (\<lambda>pn. \<not> path_under d (fst pn)) (tree (snd (mem_MkdirAll p fs)))
     = filter (\<lambda>pn. \<not> path_under d (fst pn)) (tree fs)
   \<and> objects (snd (mem_MkdirAll p fs)) = objects fs"
  by (simp add: mem_MkdirAll_def mem_mkdirs_outside)

lemma mem_WriteFile_outside:
  assumes "path_under d f"
  shows "filter (\<lambda>pn. \<not> path_under d (fst pn)) (tree (snd (mem_WriteFile f b fs)))
     = filter (\<lambda>pn. \<not> path_under d (fst pn)) (tree fs)
   \<and> objects (snd (mem_WriteFile f b fs)) = objects fs"
proof -
  have "filter (\<lambda>pn. \<not> path_under d (fst pn)) (filter (\<lambda>pn. fst pn \<noteq> f) (tree fs))
      = filter (\<lambda>pn. \<not> path_under d (fst pn)) (tree fs)"
    using assms by (auto intro: filter_cong)
  with assms show ?thesis
    by (simp add: mem_WriteFile_def split: option.split node.split)
qed

lemma mem_copyTo_outside:
  assumes "path_under d to" and "\<forall>q \<in> set (mem_ancestors [] (mem_Dir to)). path_under d q"
  shows "filter (\<lambda>pn. \<not> path_under d (fst pn)) (tree (snd (mem_copyTo from to fs)))
     = filter (\<lambda>pn. \<not> path_under d (fst pn)) (tree fs)
   \<and> objects (snd (mem_copyTo from to fs)) = objects fs"
proof (cases "mem_ReadFile from fs")
  case (Inl e)
  then show ?thesis by (simp add: mem_copyTo_def)
next
  case (Inr b)
  obtain m fs1 where mk: "mem_MkdirAll (mem_Dir to) fs = (m, fs1)" by fastforce
  from mem_MkdirAll_outside[OF assms(2), of fs] mk
  have k1: "filter (\<lambda>pn. \<not> path_under d (fst pn)) (tree fs1)
      = filter (\<lambda>pn. \<not> path_under d (fst pn)) (tree fs)" "objects fs1 = objects fs"
    by simp_all
  from mem_WriteFile_outside[OF assms(1), of b fs1] k1
  have k2: "filter (\<lambda>pn. \<not> path_under d (fst pn)) (tree (snd (mem_WriteFile to b fs1)))
      = filter (\<lambda>pn. \<not> path_under d (fst pn)) (tree fs)"
      "objects (snd (mem_WriteFile to b fs1)) = objects fs"
    by simp_all
  from Inr mk k1 k2 show ?thesis
    by (cases m) (simp_all add: mem_copyTo_def)
qed

lemma mem_RemoveAll_kept: "kept_by_reset mem_env s (os_RemoveAll mem_env (Dest s))"
  unfolding kept_by_reset_def
  by (intro allI mem_reset_dest_eq) (simp_all add: mem_env_def mem_RemoveAll_outside)

lemma mem_MkdirAll_kept:
  "\<forall>q \<in> set (mem_ancestors [] p). path_under (Dest s) q \<Longrightarrow>
   kept_by_reset mem_env s (os_MkdirAll mem_env p)"
  unfolding kept_by_reset_def
  by (intro allI mem_reset_dest_eq) (simp_all add: mem_env_def mem_MkdirAll_outside)

lemma mem_WriteFile_kept:
  "path_under (Dest s) f \<Longrightarrow> kept_by_reset mem_env s (ioutil_WriteFile mem_env f buf)"
  unfolding kept_by_reset_def
  by (intro allI mem_reset_dest_eq) (simp_all add: mem_env_def mem_WriteFile_outside)

lemma mem_copyTo_kept:
  "path_under (Dest s) to \<Longrightarrow> \<forall>q \<in> set (mem_ancestors [] (mem_Dir to)). path_under (Dest s) q \<Longrightarrow>
   kept_by_reset mem_env s (copyTo mem_env from to)"
  unfolding kept_by_reset_def
  by (intro allI mem_reset_dest_eq) (simp_all add: mem_env_def mem_copyTo_outside)

text \<open>
  Claim C8. \<open>Generate\<close> run twice in succession on the same site returns the same result
  and leaves the same file system, hence the same destination tree, both times. The
  calls the site makes on the file system have to stay inside the destination: each of
  them, on every state, changes nothing that removing the destination and creating it
  again does not undo. Then the first run leaves the source tree as it found it, the
  second run starts rendering from the state the first started from, and renders and
  copies the same.
\<close>

theorem Generate_twice_same_tree:
  assumes "kept_by_reset env s (os_RemoveAll env (Dest s))"
    and "kept_by_reset env s (os_MkdirAll env (Dest s))"
    and "\<forall>pg \<in> set (pages s @ posts s). kept_by_reset env s
           (os_MkdirAll env (filepath_Join env (Dest s) (filepath_Dir env (GetUrl pg))))"
    and "\<forall>pg \<in> set (pages s @ posts s). \<forall>buf. kept_by_reset env s
           (ioutil_WriteFile env (filepath_Join env (Dest s) (GetUrl pg)) buf)"
    and "\<forall>f \<in> set (files s). kept_by_reset env s
           (copyTo env (filepath_Join env (Src s) f) (filepath_Join env (Dest s) f))"
    and "Generate env s w0 = (r1, w1)"
    and "Generate env s w1 = (r2, w2)"
  shows "r2 = r1 \<and> fsys w2 = fsys w1"
proof -
  have "reset_dest env s (fsys w1) = reset_dest env s (fsys w0)"
    using Generate_reset[OF assms(1-5), of w0] assms(6) by simp
  from Generate_after_reset[OF this] assms(6,7) show ?thesis by simp
qed

text \<open>
  Two runs on the site with one page, one post and one static file: all its paths lie in
  the destination \<open>_site\<close>, and both runs leave the tree below.
\<close>

theorem Generate_twice_same_tree_witness:
  "Generate mem_env demo_site demo_world
     = (Returned None, snd (Generate mem_env demo_site demo_world))
   \<and> fsys (snd (Generate mem_env demo_site demo_world))
     = \<lparr>tree = [(''src'', Directory), (''src/style.css'', File ''body{}''),
                (''_site'', Directory),
                (''_site/about.html'', File ''<main><p>About</p>''),
                (''_site/2012'', Directory), (''_site/2012/01'', Directory),
                (''_site/2012/01/01'', Directory),
                (''_site/2012/01/01/a.html'', File ''<article><p># A</p>''),
                (''_site/style.css'', File ''body{}'')],
        objects = []\<rparr>
   \<and> fst (Generate mem_env demo_site (snd (Generate mem_env demo_site demo_world)))
     = Returned None
   \<and> fsys (snd (Generate mem_env demo_site (snd (Generate mem_env demo_site demo_world))))
     = fsys (snd (Generate mem_env demo_site demo_world))"
proof -
  let ?w1 = "snd (Generate mem_env demo_site demo_world)"
  have l: "pages demo_site @ posts demo_site = [page_about, post_a]"
    and fl: "files demo_site = [''style.css'']"
    by (simp_all add: demo_site_def)
  have d1: "filepath_Join mem_env (Dest demo_site) (filepath_Dir mem_env (GetUrl page_about))
      = ''_site''"
    and d2: "filepath_Join mem_env (Dest demo_site) (filepath_Dir mem_env (GetUrl post_a))
      = ''_site/2012/01/01''"
    and f1: "filepath_Join mem_env (Dest demo_site) (GetUrl page_about) = ''_site/about.html''"
    and f2: "filepath_Join mem_env (Dest demo_site) (GetUrl post_a) = ''_site/2012/01/01/a.html''"
    and c1: "filepath_Join mem_env (Dest demo_site) ''style.css'' = ''_site/style.css''"
    by code_simp+
  have a0: "\<forall>q \<in> set (mem_ancestors [] (Dest demo_site)). path_under (Dest demo_site) q"
    and a1: "\<forall>q \<in> set (mem_ancestors [] ''_site''). path_under (Dest demo_site) q"
    and a2: "\<forall>q \<in> set (mem_ancestors [] ''_site/2012/01/01''). path_under (Dest demo_site) q"
    and a3: "\<forall>q \<in> set (mem_ancestors [] (mem_Dir ''_site/style.css'')). path_under (Dest demo_site) q"
    and u1: "path_under (Dest demo_site) ''_site/about.html''"
    and u2: "path_under (Dest demo_site) ''_site/2012/01/01/a.html''"
    and u3: "path_under (Dest demo_site) ''_site/style.css''"
    by code_simp+
  have k1: "kept_by_reset mem_env demo_site (os_RemoveAll mem_env (Dest demo_site))"
    by (rule mem_RemoveAll_kept)
  have k2: "kept_by_reset mem_env demo_site (os_MkdirAll mem_env (Dest demo_site))"
    by (rule mem_MkdirAll_kept[OF a0])
  have k3: "\<forall>pg \<in> set (pages demo_site @ posts demo_site). kept_by_reset mem_env demo_site
     (os_MkdirAll mem_env (filepath_Join mem_env (Dest demo_site) (filepath_Dir mem_env (GetUrl pg))))"
    unfolding l by (simp add: d1 d2 mem_MkdirAll_kept[OF a1] mem_MkdirAll_kept[OF a2])
  have k4: "\<forall>pg \<in> set (pages demo_site @ posts demo_site). \<forall>buf. kept_by_reset mem_env demo_site
     (ioutil_WriteFile mem_env (filepath_Join mem_env (Dest demo_site) (GetUrl pg)) buf)"
    unfolding l by (simp add: f1 f2 mem_WriteFile_kept[OF u1] mem_WriteFile_kept[OF u2])
  have k5: "\<forall>f \<in> set (files demo_site). kept_by_reset mem_env demo_site
     (copyTo mem_env (filepath_Join mem_env (Src demo_site) f) (filepath_Join mem_env (Dest demo_site) f))"
    unfolding fl by (simp add: c1 mem_copyTo_kept[OF u3 a3])
  have g1: "Generate mem_env demo_site demo_world = (Returned None, ?w1)"
    by code_simp
  have t1: "fsys ?w1
     = \<lparr>tree = [(''src'', Directory), (''src/style.css'', File ''body{}''),
                (''_site'', Directory),
                (''_site/about.html'', File ''<main><p>About</p>''),
                (''_site/2012'', Directory), (''_site/2012/01'', Directory),
                (''_site/2012/01/01'', Directory),
                (''_site/2012/01/01/a.html'', File ''<article><p># A</p>''),
                (''_site/style.css'', File ''body{}'')],
        objects = []\<rparr>"
    by code_simp
  from Generate_twice_same_tree[OF k1 k2 k3 k4 k5 g1 prod.collapse[symmetric]]
  have "fst (Generate mem_env demo_site ?w1) = Returned None
      \<and> fsys (snd (Generate mem_env demo_site ?w1)) = fsys ?w1" .
  with g1 t1 show ?thesis by blast
qed

section \<open>Errors reported by the walk\<close>

lemma read_walker_error_entry:
  "read_walker env fs (fn, fi, Some err) st = (Returned None, st)"
  by (cases st) simp

lemma read_walker_Walk_update:
  "read_walker (env\<lparr>filepath_Walk := wk\<rparr>) fs e st = read_walker env fs e st"
  by (cases e; cases st) (simp add: Let_def split: option.split sum.split)

lemma read_Walk_const:
  "read (env\<lparr>filepath_Walk := (\<lambda>root fs. es)\<rparr>) fs s0 =
     (case walk (read_walker env fs) es (s0, []) of
        (Panicked p, (s, layouts)) \<Rightarrow> (Panicked p, s)
      | (Returned (Some err), (s, layouts)) \<Rightarrow> (Returned (Some err), s)
      | (Returned None, (s, layouts)) \<Rightarrow>
          (case template_ParseFiles env layouts fs of
             Inl cerr \<Rightarrow> (Panicked (MustFailed cerr), s)
           | Inr t \<Rightarrow>
               let s1 = s\<lparr>templ := Some t\<rparr>;
                   s2 = s1\<lparr>Conf := Conf_Set ''posts'' (PostList (posts s1)) (Conf s1)\<rparr>;
                   s3 = s2\<lparr>Conf := Conf_Set ''time'' (Time (time_Now env)) (Conf s2)\<rparr>;
                   s4 = calculateTags s3;
                   s5 = calculateCategories s4
               in (Returned None, s5)))"
proof -
  have "read_walker (env\<lparr>filepath_Walk := (\<lambda>root fs. es)\<rparr>) fs = read_walker env fs"
    by (intro ext) (rule read_walker_Walk_update)
  then show ?thesis
    by (simp add: read_def Let_def split: prod.split outcome.split option.split sum.split)
qed

lemma walk_skip_entry:
  "(\<And>st'. walker e st' = (Returned None, st')) \<Longrightarrow>
   walk walker (before @ e # after) st = walk walker (before @ after) st"
  by (simp add: walk_append split: prod.split outcome.split option.split)

text \<open>
  Claim C9. An entry that the walk of the source tree reports with a non-nil error is
  dropped: the walker of \<open>read\<close> returns nil and changes nothing, the walk goes on as if
  the entry were not there, and \<open>NewSite\<close> returns what it returns for the walk without
  that entry.
\<close>

theorem read_walk_discards_errors:
  "read_walker env fs (fn, fi, Some err) st = (Returned None, st)
   \<and> walk (read_walker env fs) (before @ (fn, fi, Some err) # after) st
       = walk (read_walker env fs) (before @ after) st
   \<and> NewSite (env\<lparr>filepath_Walk := (\<lambda>root fs. before @ (fn, fi, Some err) # after)\<rparr>) src dest w
       = NewSite (env\<lparr>filepath_Walk := (\<lambda>root fs. before @ after)\<rparr>) src dest w"
proof -
  have w: "walk (read_walker env fs') (before @ (fn, fi, Some err) # after) st'
       = walk (read_walker env fs') (before @ after) st'" for fs' st'
    by (rule walk_skip_entry) (rule read_walker_error_entry)
  have r: "read (env\<lparr>filepath_Walk := (\<lambda>root fs. before @ (fn, fi, Some err) # after)\<rparr>) fs' s0
       = read (env\<lparr>filepath_Walk := (\<lambda>root fs. before @ after)\<rparr>) fs' s0" for fs' s0
    by (simp only: read_Walk_const w)
  show ?thesis
    by (simp add: read_walker_error_entry w NewSite_def Let_def r split: sum.split)
qed

lemma walk_never_nil_after_panic:
  "(\<And>st'. walker e st' = (Panicked p, st')) \<Longrightarrow> fst (walk walker (before @ e # after) st) \<noteq> Returned None"
  by (induction before arbitrary: st) (auto split: prod.splits outcome.splits option.splits)

text \<open>
  Claim C10. The walker of \<open>Deploy\<close> calls \<open>fi.IsDir()\<close> before anything else and
  never reads the error of the walk, so on an entry with a nil \<open>FileInfo\<close> it panics
  with a nil dereference. A walk of the destination that holds such an entry therefore
  never makes \<open>Deploy\<close> return nil, and when the entries before it were uploaded
  without error, \<open>Deploy\<close> panics at it.
\<close>

theorem Deploy_panics_on_nil_FileInfo:
  "deploy_walker env s b (fn, None, err) w = (Panicked NilDereference, w)
   \<and> (filepath_Walk env (Dest s) (fsys w) = before @ (fn, None, err) # after \<longrightarrow>
        fst (Deploy env s user pass url w) \<noteq> Returned None
        \<and> (walk (deploy_walker env s
                   \<lparr>bucket_auth = (user, pass), bucket_region = aws_USEast, bucket_name = url\<rparr>)
                before w = (Returned None, w') \<longrightarrow>
            Deploy env s user pass url w = (Panicked NilDereference, w')))"
proof -
  have "fst (walk (deploy_walker env s b') (before @ (fn, None, err) # after) w) \<noteq> Returned None"
    for b'
    by (rule walk_never_nil_after_panic) simp
  then show ?thesis
    by (simp add: Deploy_def Let_def walk_append)
qed

text \<open>A destination with one file and one entry that cannot be read.\<close>

theorem Deploy_panics_on_nil_FileInfo_witness:
  "filepath_Walk mem_env (Dest demo_site) (fsys unreadable_world)
     = [(''_site'', Some (FileInfo True), None), (''_site/index.html'', Some (FileInfo False), None)]
       @ (''_site/locked'', None, Some (Error ''lstat failed'')) # []
   \<and> Deploy mem_env demo_site ''user'' ''pass'' ''bucket'' unreadable_world
     = (Panicked NilDereference,
        \<lparr>fsys = \<lparr>tree = tree (fsys unreadable_world),
                  objects = [(''index.html'', ''<main>'', ''text/html; charset=utf-8'')]\<rparr>,
         logged = [(''Uploading: %s'', ''index.html'')]\<rparr>)"
proof -
  have a: "filepath_Walk mem_env (Dest demo_site) (fsys unreadable_world)
     = [(''_site'', Some (FileInfo True), None), (''_site/index.html'', Some (FileInfo False), None)]
       @ (''_site/locked'', None, Some (Error ''lstat failed'')) # []"
    by code_simp
  have b: "walk (deploy_walker mem_env demo_site
                   \<lparr>bucket_auth = (''user'', ''pass''), bucket_region = aws_USEast,
                     bucket_name = ''bucket''\<rparr>)
             [(''_site'', Some (FileInfo True), None), (''_site/index.html'', Some (FileInfo False), None)]
             unreadable_world
           = (Returned None,
              \<lparr>fsys = \<lparr>tree = tree (fsys unreadable_world),
                        objects = [(''index.html'', ''<main>'', ''text/html; charset=utf-8'')]\<rparr>,
               logged = [(''Uploading: %s'', ''index.html'')]\<rparr>)"
    by code_simp
  from Deploy_panics_on_nil_FileInfo[of mem_env demo_site _ "''_site/locked''"
      "Some (Error ''lstat failed'')" unreadable_world
      "[(''_site'', Some (FileInfo True), None), (''_site/index.html'', Some (FileInfo False), None)]"
      "[]" "''user''" "''pass''" "''bucket''"] a b
  show ?thesis by simp
qed

end
